theory Spec2Isabelle
  imports Main "HOL-Library.Multiset"
begin

section \<open>Task model (models/Task.js)\<close>

text \<open>
  A stored task document. \<open>task_id\<close> is Mongo's \<open>_id\<close>, \<open>user\<close> the owner reference;
  \<open>createdAt\<close> and \<open>updatedAt\<close> are the two paths added by \<open>timestamps: true\<close>.
  ObjectIds are natural numbers, dates are milliseconds since the epoch.
  \<open>description\<close> and \<open>dueDate\<close> have no default and may be undefined.
\<close>

type_synonym object_id = nat
type_synonym date = int

record task =
  task_id :: object_id
  title :: string
  description :: "string option"
  status :: string
  priority :: string
  dueDate :: "date option"
  user :: object_id
  createdAt :: date
  updatedAt :: date

text \<open>
  \<open>req.body\<close>: each schema path a client can set is absent (\<open>None\<close>) or carries a value
  of the path's type. \<open>createTask\<close> destructures the first five and ignores the rest;
  \<open>updateTask\<close> hands the whole body to \<open>findOneAndUpdate\<close>. Values of another JSON type
  (which Mongoose would cast or reject), identifiers that are no ObjectId, and the paths
  Mongoose manages itself (\<open>_id\<close> and the two timestamps) are outside the model.
\<close>

record body =
  b_title :: "string option"
  b_description :: "string option"
  b_status :: "string option"
  b_priority :: "string option"
  b_dueDate :: "date option"
  b_user :: "object_id option"

definition status_enum :: "string list" where
  "status_enum = [''todo'', ''in-progress'', ''completed'']"

definition priority_enum :: "string list" where
  "priority_enum = [''low'', ''medium'', ''high'']"

definition status_default :: string where
  "status_default = ''todo''"

definition priority_default :: string where
  "priority_default = ''medium''"

text \<open>
  \<open>trim: true\<close> is a setter: the value is passed through \<open>String.prototype.trim\<close> when it is
  assigned, before any validator sees it. The white space of \<open>trim\<close> among the code units
  below 256: TAB, LF, VT, FF, CR, SPACE and NBSP.
\<close>

definition is_space :: "char \<Rightarrow> bool" where
  "is_space c = (of_char c \<in> {9, 10, 11, 12, 13, 32, 160 :: nat})"

definition trim :: "string \<Rightarrow> string" where
  "trim s = rev (dropWhile is_space (rev (dropWhile is_space s)))"

definition cast :: "body \<Rightarrow> body" where
  "cast b = b\<lparr>b_title := map_option trim (b_title b),
              b_description := map_option trim (b_description b)\<rparr>"

text \<open>
  The validators of the schema, run on a value that is present; the result lists the
  paths that fail. \<open>required\<close> rejects the empty string, \<open>maxlength\<close> counts code units.
\<close>

definition title_errors :: "string \<Rightarrow> string list" where
  "title_errors s = (if s = [] \<or> 100 < length s then [''title''] else [])"

definition description_errors :: "string \<Rightarrow> string list" where
  "description_errors s = (if 500 < length s then [''description''] else [])"

definition status_errors :: "string \<Rightarrow> string list" where
  "status_errors s = (if s \<in> set status_enum then [] else [''status''])"

definition priority_errors :: "string \<Rightarrow> string list" where
  "priority_errors s = (if s \<in> set priority_enum then [] else [''priority''])"

text \<open>
  \<open>dueDate\<close> has the type \<open>Date\<close>: the number sent is cast with \<open>new Date(n)\<close>, and a
  number beyond 8.64e15 milliseconds on either side of the epoch is no date. Mongoose
  reports the failed cast under the path, like a failed validator.
\<close>

definition dueDate_errors :: "date \<Rightarrow> string list" where
  "dueDate_errors n =
     (if - 8640000000000000 \<le> n \<and> n \<le> 8640000000000000 then [] else [''dueDate''])"

definition on_present :: "('a \<Rightarrow> string list) \<Rightarrow> 'a option \<Rightarrow> string list" where
  "on_present v x = (case x of None \<Rightarrow> [] | Some y \<Rightarrow> v y)"

text \<open>
  The cast of an update and the update validators (\<open>runValidators: true\<close>) look only at
  the paths named in the update. The list is in schema order; the order in which Mongoose
  reports the paths carries no meaning here.
\<close>

definition path_errors :: "body \<Rightarrow> string list" where
  "path_errors d =
     on_present title_errors (b_title d) @
     on_present description_errors (b_description d) @
     on_present status_errors (b_status d) @
     on_present priority_errors (b_priority d) @
     on_present dueDate_errors (b_dueDate d)"

text \<open>
  Document validation on \<open>save\<close>: in addition the required path \<open>title\<close> must be there.
  (The other required path, \<open>user\<close>, is always set from \<open>req.user.id\<close>.)
\<close>

definition doc_errors :: "body \<Rightarrow> string list" where
  "doc_errors d = (if b_title d = None then [''title''] else []) @ path_errors d"

section \<open>Requests, responses, environment\<close>

text \<open>
  What a handler's \<open>try\<close> block can throw: Mongoose's rejection of the document or of the
  update before any store call (a validation error; the paths that failed a validator
  or a cast), or a rejection of the store call for any other reason (connection lost,
  time-out).
\<close>

datatype failure = ValidationError "string list" | StoreError

datatype payload =
    Tasks "task list"
  | Doc task
  | Message string
  | Error string failure

type_synonym response = "nat \<times> payload"

text \<open>
  An error response carries a JSON object with a \<open>message\<close> member.
\<close>

definition has_message :: "payload \<Rightarrow> bool" where
  "has_message p = (case p of Message m \<Rightarrow> True | Error m f \<Rightarrow> True | _ \<Rightarrow> False)"

text \<open>
  What the handler takes from outside the request: the clock, the ObjectId the driver
  generates for a new document, and whether the store answers the call.
\<close>

record env =
  now :: date
  oid :: object_id
  reachable :: bool

section \<open>Task controller (controllers/taskController.js)\<close>

subsection \<open>getTasks\<close>

text \<open>\<open>.sort({ createdAt: -1 })\<close>: descending by creation time.\<close>

definition newest_first :: "task list \<Rightarrow> task list" where
  "newest_first ts = sort_key (\<lambda>t. - createdAt t) ts"

definition getTasks :: "env \<Rightarrow> object_id \<Rightarrow> task list \<Rightarrow> response" where
  "getTasks e uid store =
     (if reachable e
      then (200, Tasks (newest_first (filter (\<lambda>t. user t = uid) store)))
      else (500, Error ''Server error'' StoreError))"

subsection \<open>createTask\<close>

text \<open>
  \<open>new Task({...})\<close> applies setters and defaults; \<open>save()\<close> validates, stamps both
  timestamps with the current time and inserts.
\<close>

definition new_Task :: "env \<Rightarrow> object_id \<Rightarrow> string \<Rightarrow> body \<Rightarrow> task" where
  "new_Task e uid ttl d =
     \<lparr>task_id = oid e,
      title = ttl,
      description = b_description d,
      status = (case b_status d of None \<Rightarrow> status_default | Some s \<Rightarrow> s),
      priority = (case b_priority d of None \<Rightarrow> priority_default | Some p \<Rightarrow> p),
      dueDate = b_dueDate d,
      user = uid,
      createdAt = now e,
      updatedAt = now e\<rparr>"

definition createTask :: "env \<Rightarrow> object_id \<Rightarrow> body \<Rightarrow> task list \<Rightarrow> response \<times> task list" where
  "createTask e uid b store =
     (let d = cast b in
      case (doc_errors d, b_title d) of
        ([], Some ttl) \<Rightarrow>
          if reachable e
          then ((201, Doc (new_Task e uid ttl d)), store @ [new_Task e uid ttl d])
          else ((400, Error ''Error creating task'' StoreError), store)
      | (errs, _) \<Rightarrow>
          ((400, Error ''Error creating task'' (ValidationError errs)), store))"

subsection \<open>updateTask\<close>

text \<open>
  \<open>findOneAndUpdate\<close> changes the first document matching the filter and, with
  \<open>new: true\<close>, returns it as changed; \<open>None\<close> when nothing matches.
\<close>

fun findOneAndUpdate :: "(task \<Rightarrow> bool) \<Rightarrow> (task \<Rightarrow> task) \<Rightarrow> task list \<Rightarrow> task option \<times> task list" where
  "findOneAndUpdate P f [] = (None, [])"
| "findOneAndUpdate P f (t # ts) =
     (if P t then (Some (f t), f t # ts)
      else (case findOneAndUpdate P f ts of (r, ts') \<Rightarrow> (r, t # ts')))"

text \<open>
  The update sets the paths present in the (cast) body; \<open>timestamps: true\<close> adds
  \<open>updatedAt\<close> to every update.
\<close>

definition apply_update :: "date \<Rightarrow> body \<Rightarrow> task \<Rightarrow> task" where
  "apply_update n d t =
     t\<lparr>title := (case b_title d of None \<Rightarrow> title t | Some s \<Rightarrow> s),
       description := (case b_description d of None \<Rightarrow> description t | Some s \<Rightarrow> Some s),
       status := (case b_status d of None \<Rightarrow> status t | Some s \<Rightarrow> s),
       priority := (case b_priority d of None \<Rightarrow> priority t | Some p \<Rightarrow> p),
       dueDate := (case b_dueDate d of None \<Rightarrow> dueDate t | Some x \<Rightarrow> Some x),
       user := (case b_user d of None \<Rightarrow> user t | Some u \<Rightarrow> u),
       updatedAt := n\<rparr>"

text \<open>
  Mongoose casts the update and runs the update validators before it sends the query,
  so a cast or validation error is thrown whether or not a document matches.
\<close>

definition updateTask ::
  "env \<Rightarrow> object_id \<Rightarrow> object_id \<Rightarrow> body \<Rightarrow> task list \<Rightarrow> response \<times> task list" where
  "updateTask e uid tid b store =
     (let d = cast b in
      if path_errors d \<noteq> []
      then ((400, Error ''Error updating task'' (ValidationError (path_errors d))), store)
      else if \<not> reachable e
      then ((400, Error ''Error updating task'' StoreError), store)
      else (case findOneAndUpdate (\<lambda>t. task_id t = tid \<and> user t = uid)
                   (apply_update (now e) d) store of
              (None, _) \<Rightarrow> ((404, Message ''Task not found''), store)
            | (Some t, store') \<Rightarrow> ((200, Doc t), store')))"

subsection \<open>deleteTask\<close>

fun findOneAndDelete :: "(task \<Rightarrow> bool) \<Rightarrow> task list \<Rightarrow> task option \<times> task list" where
  "findOneAndDelete P [] = (None, [])"
| "findOneAndDelete P (t # ts) =
     (if P t then (Some t, ts)
      else (case findOneAndDelete P ts of (r, ts') \<Rightarrow> (r, t # ts')))"

definition deleteTask ::
  "env \<Rightarrow> object_id \<Rightarrow> object_id \<Rightarrow> task list \<Rightarrow> response \<times> task list" where
  "deleteTask e uid tid store =
     (if \<not> reachable e
      then ((500, Error ''Server error'' StoreError), store)
      else (case findOneAndDelete (\<lambda>t. task_id t = tid \<and> user t = uid) store of
              (None, _) \<Rightarrow> ((404, Message ''Task not found''), store)
            | (Some t, store') \<Rightarrow> ((200, Message ''Task deleted successfully''), store')))"

text \<open>The caller owns some task with this identifier.\<close>

definition owns :: "object_id \<Rightarrow> object_id \<Rightarrow> task list \<Rightarrow> bool" where
  "owns uid tid store = list_ex (\<lambda>t. task_id t = tid \<and> user t = uid) store"

definition descending :: "task list \<Rightarrow> bool" where
  "descending ts = sorted_wrt (\<lambda>a b. createdAt b \<le> createdAt a) ts"

text \<open>The task list carried by a response (\<open>response.data\<close> of a successful list call).\<close>

definition listed :: "response \<Rightarrow> task list" where
  "listed r = (case snd r of Tasks ts \<Rightarrow> ts | _ \<Rightarrow> [])"

text \<open>The schema's enumerations hold of every stored task.\<close>

definition enums_ok :: "task list \<Rightarrow> bool" where
  "enums_ok store =
     list_all (\<lambda>t. status t \<in> set status_enum \<and> priority t \<in> set priority_enum) store"

text \<open>
  A history of the collection: the state-changing requests served so far, oldest first,
  starting from the empty collection.
\<close>

datatype request =
    Create env object_id body
  | Update env object_id object_id body
  | Delete env object_id object_id

fun serve :: "request \<Rightarrow> task list \<Rightarrow> task list" where
  "serve (Create e uid b) store = snd (createTask e uid b store)"
| "serve (Update e uid tid b) store = snd (updateTask e uid tid b store)"
| "serve (Delete e uid tid) store = snd (deleteTask e uid tid store)"

definition run :: "request list \<Rightarrow> task list" where
  "run rs = foldl (\<lambda>store r. serve r store) [] rs"

section \<open>Client state (frontend/src/App.js)\<close>

text \<open>
  The promise of an API call resolves with \<open>response.data\<close> (\<open>Some\<close>) or rejects
  (\<open>None\<close>: a status outside 2xx, or no answer); on rejection the handler only logs.
  \<open>tasks\<close> is the list held by \<open>useState\<close>; the handler's result is what it passes to
  \<open>setTasks\<close>, or the list as it was.
\<close>

definition handleCreateTask :: "task option \<Rightarrow> task list \<Rightarrow> task list" where
  "handleCreateTask response tasks =
     (case response of Some d \<Rightarrow> d # tasks | None \<Rightarrow> tasks)"

definition handleUpdateTask :: "object_id \<Rightarrow> task option \<Rightarrow> task list \<Rightarrow> task list" where
  "handleUpdateTask taskId response tasks =
     (case response of
        Some d \<Rightarrow> map (\<lambda>task. if task_id task = taskId then d else task) tasks
      | None \<Rightarrow> tasks)"

section \<open>Authentication service: registration\<close>

text \<open>
  Modelled from the spec: the User model is not among the sources. The spec gives a User
  an identifier, an email (unique), a hashed password and a creation timestamp.
\<close>

record account =
  account_id :: object_id
  email :: string
  password_hash :: string
  registered :: date

datatype auth_error = EmailInUse

text \<open>
  Modelled from the spec: the authentication controller is not among the sources. The
  spec says of \<open>register(email, password)\<close>: it fails if the email is already in use; it
  stores a salted hash of the password; it returns a signed token. The hash and the
  signature are parameters; the salt, the clock and the new identifier come from outside.
\<close>

definition register ::
  "(string \<Rightarrow> string \<Rightarrow> string) \<Rightarrow> (object_id \<Rightarrow> string) \<Rightarrow> env \<Rightarrow> string \<Rightarrow>
   string \<Rightarrow> string \<Rightarrow> account list \<Rightarrow> (auth_error + string) \<times> account list" where
  "register hash sign e salt em pw users =
     (if list_ex (\<lambda>u. email u = em) users
      then (Inl EmailInUse, users)
      else (Inr (sign (oid e)),
            users @ [\<lparr>account_id = oid e, email = em,
                      password_hash = hash salt pw, registered = now e\<rparr>]))"

section \<open>Auxiliary facts\<close>

subsection \<open>The query and the two find-and-modify operations\<close>

lemma descending_newest_first: "descending (newest_first ts)"
proof -
  have "sorted (map (\<lambda>t. - createdAt t) (newest_first ts))"
    unfolding newest_first_def by (rule sorted_sort_key)
  then show ?thesis
    by (simp add: descending_def sorted_map sorted_wrt_iff_nth_less)
qed

lemma mset_newest_first: "mset (newest_first ts) = mset ts"
  by (simp add: newest_first_def)

lemma listed_getTasks:
  "reachable e \<Longrightarrow> set (listed (getTasks e uid store)) = {t \<in> set store. user t = uid}"
  by (simp add: listed_def getTasks_def newest_first_def)

lemma getTasks_cases:
  "getTasks e uid store =
     (if reachable e then (200, Tasks (newest_first (filter (\<lambda>t. user t = uid) store)))
      else (500, Error ''Server error'' StoreError))"
  by (simp add: getTasks_def)

lemma findOneAndUpdate_none:
  "\<not> list_ex P ts \<Longrightarrow> findOneAndUpdate P f ts = (None, ts)"
  by (induction ts) auto

lemma findOneAndUpdate_some:
  "list_ex P ts \<Longrightarrow>
   \<exists>i<length ts. P (ts ! i) \<and> (\<forall>j<i. \<not> P (ts ! j)) \<and>
      findOneAndUpdate P f ts = (Some (f (ts ! i)), ts[i := f (ts ! i)])"
proof (induction ts)
  case Nil
  then show ?case by simp
next
  case (Cons t ts)
  show ?case
  proof (cases "P t")
    case True
    then have "P ((t # ts) ! 0) \<and> (\<forall>j<0. \<not> P ((t # ts) ! j)) \<and>
      findOneAndUpdate P f (t # ts) = (Some (f ((t # ts) ! 0)), (t # ts)[0 := f ((t # ts) ! 0)])"
      by simp
    then show ?thesis by blast
  next
    case False
    with Cons.prems have "list_ex P ts" by simp
    from Cons.IH [OF this] obtain i where i: "i < length ts" "P (ts ! i)"
      "\<forall>j<i. \<not> P (ts ! j)"
      "findOneAndUpdate P f ts = (Some (f (ts ! i)), ts[i := f (ts ! i)])"
      by blast
    have "\<forall>j<Suc i. \<not> P ((t # ts) ! j)"
      using False i(3) by (auto simp: nth_Cons split: nat.splits)
    with i False have "Suc i < length (t # ts) \<and> P ((t # ts) ! Suc i) \<and>
      (\<forall>j<Suc i. \<not> P ((t # ts) ! j)) \<and>
      findOneAndUpdate P f (t # ts) =
        (Some (f ((t # ts) ! Suc i)), (t # ts)[Suc i := f ((t # ts) ! Suc i)])"
      by simp
    then show ?thesis by blast
  qed
qed

lemma findOneAndDelete_none:
  "\<not> list_ex P ts \<Longrightarrow> findOneAndDelete P ts = (None, ts)"
  by (induction ts) auto

lemma findOneAndDelete_some:
  "list_ex P ts \<Longrightarrow>
   \<exists>i<length ts. P (ts ! i) \<and> (\<forall>j<i. \<not> P (ts ! j)) \<and>
      findOneAndDelete P ts = (Some (ts ! i), take i ts @ drop (Suc i) ts)"
proof (induction ts)
  case Nil
  then show ?case by simp
next
  case (Cons t ts)
  show ?case
  proof (cases "P t")
    case True
    then have "P ((t # ts) ! 0) \<and> (\<forall>j<0. \<not> P ((t # ts) ! j)) \<and>
      findOneAndDelete P (t # ts) = (Some ((t # ts) ! 0), take 0 (t # ts) @ drop (Suc 0) (t # ts))"
      by simp
    then show ?thesis by blast
  next
    case False
    with Cons.prems have "list_ex P ts" by simp
    from Cons.IH [OF this] obtain i where i: "i < length ts" "P (ts ! i)"
      "\<forall>j<i. \<not> P (ts ! j)"
      "findOneAndDelete P ts = (Some (ts ! i), take i ts @ drop (Suc i) ts)"
      by blast
    have "\<forall>j<Suc i. \<not> P ((t # ts) ! j)"
      using False i(3) by (auto simp: nth_Cons split: nat.splits)
    with i False have "Suc i < length (t # ts) \<and> P ((t # ts) ! Suc i) \<and>
      (\<forall>j<Suc i. \<not> P ((t # ts) ! j)) \<and>
      findOneAndDelete P (t # ts) =
        (Some ((t # ts) ! Suc i), take (Suc i) (t # ts) @ drop (Suc (Suc i)) (t # ts))"
      by simp
    then show ?thesis by blast
  qed
qed

subsection \<open>The handlers by cases\<close>

lemma createTask_cases:
  "createTask e uid b store =
     (if doc_errors (cast b) \<noteq> []
      then ((400, Error ''Error creating task'' (ValidationError (doc_errors (cast b)))), store)
      else if reachable e
      then ((201, Doc (new_Task e uid (the (b_title (cast b))) (cast b))),
            store @ [new_Task e uid (the (b_title (cast b))) (cast b)])
      else ((400, Error ''Error creating task'' StoreError), store))"
  by (auto simp: createTask_def Let_def doc_errors_def split: list.splits option.splits)

lemma createTask_success:
  assumes "createTask e uid b store = ((201, Doc t), store')"
  shows "doc_errors (cast b) = [] \<and> reachable e \<and> store' = store @ [t] \<and>
         (\<exists>x. b_title b = Some x \<and> t = new_Task e uid (trim x) (cast b))"
  using assms
  by (auto simp: createTask_cases doc_errors_def cast_def split: if_splits)

lemma updateTask_cases:
  "updateTask e uid tid b store =
     (if path_errors (cast b) \<noteq> []
      then ((400, Error ''Error updating task'' (ValidationError (path_errors (cast b)))), store)
      else if \<not> reachable e
      then ((400, Error ''Error updating task'' StoreError), store)
      else if \<not> owns uid tid store
      then ((404, Message ''Task not found''), store)
      else ((200, Doc (the (fst (findOneAndUpdate (\<lambda>t. task_id t = tid \<and> user t = uid)
                   (apply_update (now e) (cast b)) store)))),
            snd (findOneAndUpdate (\<lambda>t. task_id t = tid \<and> user t = uid)
                   (apply_update (now e) (cast b)) store)))"
proof (cases "owns uid tid store")
  case True
  then have "list_ex (\<lambda>t. task_id t = tid \<and> user t = uid) store"
    by (simp add: owns_def)
  from findOneAndUpdate_some [OF this, of "apply_update (now e) (cast b)"]
  show ?thesis using True by (auto simp: updateTask_def Let_def)
next
  case False
  then have "\<not> list_ex (\<lambda>t. task_id t = tid \<and> user t = uid) store"
    by (simp add: owns_def)
  from findOneAndUpdate_none [OF this, of "apply_update (now e) (cast b)"]
  show ?thesis using False by (auto simp: updateTask_def Let_def)
qed

lemma updateTask_found:
  assumes "owns uid tid store" "reachable e" "path_errors (cast b) = []"
  shows "\<exists>i<length store. task_id (store ! i) = tid \<and> user (store ! i) = uid \<and>
           (\<forall>j<i. \<not> (task_id (store ! j) = tid \<and> user (store ! j) = uid)) \<and>
           updateTask e uid tid b store =
             ((200, Doc (apply_update (now e) (cast b) (store ! i))),
              store[i := apply_update (now e) (cast b) (store ! i)])"
proof -
  from assms(1) have "list_ex (\<lambda>t. task_id t = tid \<and> user t = uid) store"
    by (simp add: owns_def)
  from findOneAndUpdate_some [OF this, of "apply_update (now e) (cast b)"]
  show ?thesis using assms(2,3) by (auto simp: updateTask_def Let_def)
qed

lemma deleteTask_found:
  assumes "owns uid tid store" "reachable e"
  shows "\<exists>i<length store. task_id (store ! i) = tid \<and> user (store ! i) = uid \<and>
           deleteTask e uid tid store =
             ((200, Message ''Task deleted successfully''), take i store @ drop (Suc i) store)"
proof -
  from assms(1) have "list_ex (\<lambda>t. task_id t = tid \<and> user t = uid) store"
    by (simp add: owns_def)
  from findOneAndDelete_some [OF this]
  show ?thesis using assms(2) by (auto simp: deleteTask_def)
qed

lemma deleteTask_missing:
  assumes "\<not> owns uid tid store" "reachable e"
  shows "deleteTask e uid tid store = ((404, Message ''Task not found''), store)"
proof -
  from assms(1) have "\<not> list_ex (\<lambda>t. task_id t = tid \<and> user t = uid) store"
    by (simp add: owns_def)
  from findOneAndDelete_none [OF this]
  show ?thesis using assms(2) by (simp add: deleteTask_def)
qed

lemma deleteTask_unreachable:
  "\<not> reachable e \<Longrightarrow> deleteTask e uid tid store = ((500, Error ''Server error'' StoreError), store)"
  by (simp add: deleteTask_def)

lemma deleteTask_status:
  "fst (fst (deleteTask e uid tid store)) =
     (if \<not> reachable e then 500 else if owns uid tid store then 200 else 404)"
  using deleteTask_found [of uid tid store e] deleteTask_missing [of uid tid store e]
    deleteTask_unreachable [of e uid tid store]
  by (cases "reachable e"; cases "owns uid tid store") auto

lemma deleteTask_body:
  "400 \<le> fst (fst (deleteTask e uid tid store)) \<Longrightarrow>
     has_message (snd (fst (deleteTask e uid tid store)))"
  using deleteTask_found [of uid tid store e] deleteTask_missing [of uid tid store e]
    deleteTask_unreachable [of e uid tid store]
  by (cases "reachable e"; cases "owns uid tid store") (auto simp: has_message_def)

subsection \<open>What an operation leaves alone\<close>

lemma createTask_frame:
  "snd (createTask e c b s) = s \<or>
   (\<exists>t. snd (createTask e c b s) = s @ [t] \<and> user t = c)"
  by (simp add: createTask_cases new_Task_def)

lemma updateTask_frame:
  "length (snd (updateTask e c tid b s)) = length s \<and>
   (\<forall>i<length s. user (s ! i) \<noteq> c \<longrightarrow> snd (updateTask e c tid b s) ! i = s ! i)"
proof (cases "owns c tid s \<and> reachable e \<and> path_errors (cast b) = []")
  case True
  from updateTask_found [of c tid s e b] True
  obtain i where i: "i < length s" "user (s ! i) = c"
    "updateTask e c tid b s =
       ((200, Doc (apply_update (now e) (cast b) (s ! i))),
        s[i := apply_update (now e) (cast b) (s ! i)])"
    by blast
  show ?thesis using i by (auto simp: nth_list_update)
next
  case False
  then have "snd (updateTask e c tid b s) = s"
    by (auto simp: updateTask_cases)
  then show ?thesis by simp
qed

lemma deleteTask_frame:
  "filter (\<lambda>x. user x \<noteq> c) (snd (deleteTask e c tid s)) = filter (\<lambda>x. user x \<noteq> c) s"
proof (cases "owns c tid s \<and> reachable e")
  case True
  from deleteTask_found [of c tid s e] True
  obtain i where i: "i < length s" "user (s ! i) = c"
    "deleteTask e c tid s =
       ((200, Message ''Task deleted successfully''), take i s @ drop (Suc i) s)"
    by blast
  have "filter (\<lambda>x. user x \<noteq> c) s =
        filter (\<lambda>x. user x \<noteq> c) (take i s @ s ! i # drop (Suc i) s)"
    using i(1) by (simp add: id_take_nth_drop [symmetric])
  also have "\<dots> = filter (\<lambda>x. user x \<noteq> c) (take i s @ drop (Suc i) s)"
    using i(2) by simp
  finally show ?thesis using i(3) by simp
next
  case False
  then have "snd (deleteTask e c tid s) = s"
    using deleteTask_missing [of c tid s e] deleteTask_unreachable [of e c tid s]
    by (cases "reachable e") auto
  then show ?thesis by simp
qed

subsection \<open>The enumerations are an invariant of the collection\<close>

lemma path_errors_status:
  "path_errors d = [] \<Longrightarrow> b_status d = Some s \<Longrightarrow> s \<in> set status_enum"
  by (simp add: path_errors_def on_present_def status_errors_def split: if_splits)

lemma path_errors_priority:
  "path_errors d = [] \<Longrightarrow> b_priority d = Some p \<Longrightarrow> p \<in> set priority_enum"
  by (simp add: path_errors_def on_present_def priority_errors_def split: if_splits)

lemma enums_ok_createTask:
  assumes "enums_ok store"
  shows "enums_ok (snd (createTask e uid b store))"
proof (cases "doc_errors (cast b) = [] \<and> reachable e")
  case True
  then have pe: "path_errors (cast b) = []"
    by (simp add: doc_errors_def split: if_splits)
  have "status (new_Task e uid ttl (cast b)) \<in> set status_enum" for ttl
    using path_errors_status [OF pe]
    by (cases "b_status (cast b)") (simp_all add: new_Task_def status_default_def status_enum_def)
  moreover have "priority (new_Task e uid ttl (cast b)) \<in> set priority_enum" for ttl
    using path_errors_priority [OF pe]
    by (cases "b_priority (cast b)")
      (simp_all add: new_Task_def priority_default_def priority_enum_def)
  ultimately show ?thesis
    using True assms by (simp add: createTask_cases enums_ok_def)
next
  case False
  then show ?thesis using assms by (auto simp: createTask_cases)
qed

lemma enums_ok_updateTask:
  assumes "enums_ok store"
  shows "enums_ok (snd (updateTask e uid tid b store))"
proof (cases "owns uid tid store \<and> reachable e \<and> path_errors (cast b) = []")
  case True
  then have pe: "path_errors (cast b) = []" by simp
  from updateTask_found [of uid tid store e b] True
  obtain i where i: "i < length store"
    "updateTask e uid tid b store =
       ((200, Doc (apply_update (now e) (cast b) (store ! i))),
        store[i := apply_update (now e) (cast b) (store ! i)])"
    by blast
  have old: "status (store ! i) \<in> set status_enum" "priority (store ! i) \<in> set priority_enum"
    using assms i(1) by (simp_all add: enums_ok_def list_all_length)
  have s: "status (apply_update (now e) (cast b) (store ! i)) \<in> set status_enum"
    using path_errors_status [OF pe] old(1)
    by (cases "b_status (cast b)") (simp_all add: apply_update_def)
  have p: "priority (apply_update (now e) (cast b) (store ! i)) \<in> set priority_enum"
    using path_errors_priority [OF pe] old(2)
    by (cases "b_priority (cast b)") (simp_all add: apply_update_def)
  have "\<forall>x\<in>set (store[i := apply_update (now e) (cast b) (store ! i)]).
          status x \<in> set status_enum \<and> priority x \<in> set priority_enum"
  proof
    fix x assume "x \<in> set (store[i := apply_update (now e) (cast b) (store ! i)])"
    then have "x = apply_update (now e) (cast b) (store ! i) \<or> x \<in> set store"
      using set_update_subset_insert by fastforce
    then show "status x \<in> set status_enum \<and> priority x \<in> set priority_enum"
      using s p assms by (auto simp: enums_ok_def list_all_iff)
  qed
  then show ?thesis using i(2) by (simp add: enums_ok_def list_all_iff)
next
  case False
  then have "snd (updateTask e uid tid b store) = store"
    by (auto simp: updateTask_cases)
  then show ?thesis using assms by simp
qed

lemma enums_ok_deleteTask:
  assumes "enums_ok store"
  shows "enums_ok (snd (deleteTask e uid tid store))"
proof (cases "owns uid tid store \<and> reachable e")
  case True
  from deleteTask_found [of uid tid store e] True
  obtain i where i: "deleteTask e uid tid store =
       ((200, Message ''Task deleted successfully''), take i store @ drop (Suc i) store)"
    by blast
  have "set (take i store @ drop (Suc i) store) \<subseteq> set store"
    using set_take_subset set_drop_subset by fastforce
  then show ?thesis using assms i by (auto simp: enums_ok_def list_all_iff)
next
  case False
  then have "snd (deleteTask e uid tid store) = store"
    using deleteTask_missing [of uid tid store e] deleteTask_unreachable [of e uid tid store]
    by (cases "reachable e") auto
  then show ?thesis using assms by simp
qed

lemma enums_ok_serve: "enums_ok store \<Longrightarrow> enums_ok (serve r store)"
  by (cases r) (simp_all add: enums_ok_createTask enums_ok_updateTask enums_ok_deleteTask)

lemma enums_ok_run: "enums_ok (run rs)"
proof (induction rs rule: rev_induct)
  case Nil
  then show ?case by (simp add: run_def enums_ok_def)
next
  case (snoc r rs)
  then show ?case by (simp add: run_def enums_ok_serve)
qed

subsection \<open>Replacing a task in an ordered list\<close>

lemma descending_replace:
  assumes "descending tasks"
    and "\<forall>t\<in>set tasks. task_id t = tid \<longrightarrow> createdAt t = createdAt d"
  shows "descending (map (\<lambda>task. if task_id task = tid then d else task) tasks)"
proof -
  let ?f = "\<lambda>task. if task_id task = tid then d else task"
  have same: "createdAt (?f t) = createdAt t" if "t \<in> set tasks" for t
    using assms(2) that by simp
  have "sorted_wrt (\<lambda>a b. createdAt (?f b) \<le> createdAt (?f a)) tasks"
  proof (rule sorted_wrt_mono_rel [of tasks "\<lambda>a b. createdAt b \<le> createdAt a"])
    fix a b assume "a \<in> set tasks" "b \<in> set tasks" "createdAt b \<le> createdAt a"
    then show "createdAt (?f b) \<le> createdAt (?f a)"
      using same by metis
  next
    show "sorted_wrt (\<lambda>a b. createdAt b \<le> createdAt a) tasks"
      using assms(1) by (simp add: descending_def)
  qed
  then show ?thesis by (simp add: descending_def sorted_wrt_map)
qed

section \<open>Listing\<close>

text \<open>
  C1. When the store answers, \<open>getTasks\<close> responds 200 with a list that holds exactly
  the stored tasks whose owner reference is the caller (the same tasks, with the same
  multiplicities), in descending order of creation time.
\<close>

theorem getTasks_owned_newest_first:
  assumes "reachable e"
  shows "\<exists>ts. getTasks e uid store = (200, Tasks ts)
           \<and> mset ts = mset (filter (\<lambda>t. user t = uid) store)
           \<and> descending ts"
  using assms by (simp add: getTasks_def mset_newest_first descending_newest_first)

text \<open>
  An instance: of three stored tasks, two belong to user 1.
\<close>

theorem getTasks_owned_newest_first_witness:
  "reachable \<lparr>now = 50, oid = 0, reachable = True\<rparr> \<and>
   (\<exists>ts. getTasks \<lparr>now = 50, oid = 0, reachable = True\<rparr> 1
           [\<lparr>task_id = 10, title = ''a'', description = None, status = ''todo'',
             priority = ''medium'', dueDate = None, user = 1, createdAt = 5, updatedAt = 5\<rparr>,
            \<lparr>task_id = 11, title = ''b'', description = None, status = ''todo'',
             priority = ''low'', dueDate = None, user = 2, createdAt = 6, updatedAt = 6\<rparr>,
            \<lparr>task_id = 12, title = ''c'', description = None, status = ''completed'',
             priority = ''high'', dueDate = None, user = 1, createdAt = 7, updatedAt = 9\<rparr>]
         = (200, Tasks ts)
       \<and> mset ts = mset (filter (\<lambda>t. user t = 1)
           [\<lparr>task_id = 10, title = ''a'', description = None, status = ''todo'',
             priority = ''medium'', dueDate = None, user = 1, createdAt = 5, updatedAt = 5\<rparr>,
            \<lparr>task_id = 11, title = ''b'', description = None, status = ''todo'',
             priority = ''low'', dueDate = None, user = 2, createdAt = 6, updatedAt = 6\<rparr>,
            \<lparr>task_id = 12, title = ''c'', description = None, status = ''completed'',
             priority = ''high'', dueDate = None, user = 1, createdAt = 7, updatedAt = 9\<rparr>])
       \<and> descending ts)"
  using getTasks_owned_newest_first
    [of "\<lparr>now = 50, oid = 0, reachable = True\<rparr>" 1
        "[\<lparr>task_id = 10, title = ''a'', description = None, status = ''todo'',
             priority = ''medium'', dueDate = None, user = 1, createdAt = 5, updatedAt = 5\<rparr>,
            \<lparr>task_id = 11, title = ''b'', description = None, status = ''todo'',
             priority = ''low'', dueDate = None, user = 2, createdAt = 6, updatedAt = 6\<rparr>,
            \<lparr>task_id = 12, title = ''c'', description = None, status = ''completed'',
             priority = ''high'', dueDate = None, user = 1, createdAt = 7, updatedAt = 9\<rparr>]"]
  by simp

section \<open>Ownership\<close>

text \<open>
  C2. A task created by \<open>u\<close> is in the list served to \<open>u\<close> and in no list served to
  another user \<open>v\<close>. Every operation is scoped by its caller \<open>c\<close>: \<open>getTasks\<close> lists only
  tasks owned by \<open>c\<close>; \<open>createTask\<close> leaves the collection as it is or appends one task,
  owned by \<open>c\<close>; \<open>updateTask\<close> keeps the length of the collection and leaves every task
  not owned by \<open>c\<close> in its place and unchanged; \<open>deleteTask\<close> leaves the tasks not owned by
  \<open>c\<close> as they are.
\<close>

theorem created_task_owner_only:
  assumes "createTask e u b store = ((201, Doc t), store')"
    and "v \<noteq> u" and "reachable e'"
  shows "t \<in> set (listed (getTasks e' u store')) \<and>
         t \<notin> set (listed (getTasks e' v store')) \<and>
         (\<forall>x\<in>set (listed (getTasks e' c s)). user x = c) \<and>
         (snd (createTask e2 c b2 s) = s \<or>
            (\<exists>x. snd (createTask e2 c b2 s) = s @ [x] \<and> user x = c)) \<and>
         length (snd (updateTask e2 c tid b2 s)) = length s \<and>
         (\<forall>i<length s. user (s ! i) \<noteq> c \<longrightarrow> snd (updateTask e2 c tid b2 s) ! i = s ! i) \<and>
         filter (\<lambda>x. user x \<noteq> c) (snd (deleteTask e2 c tid s)) = filter (\<lambda>x. user x \<noteq> c) s"
proof -
  from createTask_success [OF assms(1)]
  have t: "store' = store @ [t]" "user t = u"
    by (auto simp: new_Task_def)
  have 1: "t \<in> set (listed (getTasks e' u store'))"
    using t assms(3) by (simp add: listed_getTasks)
  have 2: "t \<notin> set (listed (getTasks e' v store'))"
    using t assms(2,3) by (simp add: listed_getTasks)
  have 3: "\<forall>x\<in>set (listed (getTasks e' c s)). user x = c"
    using assms(3) by (simp add: listed_getTasks)
  show ?thesis
    using 1 2 3 createTask_frame [of e2 c b2 s] updateTask_frame [of e2 c tid b2 s]
      deleteTask_frame [of c e2 tid s]
    by blast
qed

text \<open>
  An instance: user 1 creates a task next to one of user 2; user 2 then tries to retitle it.
\<close>

theorem created_task_owner_only_witness:
  "createTask \<lparr>now = 9, oid = 3, reachable = True\<rparr> 1
       \<lparr>b_title = Some ''X'', b_description = None, b_status = None,
        b_priority = None, b_dueDate = None, b_user = None\<rparr>
       [\<lparr>task_id = 2, title = ''W'', description = None, status = ''todo'',
         priority = ''low'', dueDate = None, user = 2, createdAt = 8, updatedAt = 8\<rparr>]
     = ((201, Doc \<lparr>task_id = 3, title = ''X'', description = None, status = ''todo'',
                   priority = ''medium'', dueDate = None, user = 1, createdAt = 9, updatedAt = 9\<rparr>),
        [\<lparr>task_id = 2, title = ''W'', description = None, status = ''todo'',
          priority = ''low'', dueDate = None, user = 2, createdAt = 8, updatedAt = 8\<rparr>,
         \<lparr>task_id = 3, title = ''X'', description = None, status = ''todo'',
          priority = ''medium'', dueDate = None, user = 1, createdAt = 9, updatedAt = 9\<rparr>]) \<and>
   (2::nat) \<noteq> 1 \<and> reachable \<lparr>now = 10, oid = 4, reachable = True\<rparr> \<and>
   listed (getTasks \<lparr>now = 10, oid = 4, reachable = True\<rparr> 1
        [\<lparr>task_id = 2, title = ''W'', description = None, status = ''todo'',
          priority = ''low'', dueDate = None, user = 2, createdAt = 8, updatedAt = 8\<rparr>,
         \<lparr>task_id = 3, title = ''X'', description = None, status = ''todo'',
          priority = ''medium'', dueDate = None, user = 1, createdAt = 9, updatedAt = 9\<rparr>])
     = [\<lparr>task_id = 3, title = ''X'', description = None, status = ''todo'',
          priority = ''medium'', dueDate = None, user = 1, createdAt = 9, updatedAt = 9\<rparr>] \<and>
   listed (getTasks \<lparr>now = 10, oid = 4, reachable = True\<rparr> 2
        [\<lparr>task_id = 2, title = ''W'', description = None, status = ''todo'',
          priority = ''low'', dueDate = None, user = 2, createdAt = 8, updatedAt = 8\<rparr>,
         \<lparr>task_id = 3, title = ''X'', description = None, status = ''todo'',
          priority = ''medium'', dueDate = None, user = 1, createdAt = 9, updatedAt = 9\<rparr>])
     = [\<lparr>task_id = 2, title = ''W'', description = None, status = ''todo'',
          priority = ''low'', dueDate = None, user = 2, createdAt = 8, updatedAt = 8\<rparr>] \<and>
   snd (updateTask \<lparr>now = 11, oid = 5, reachable = True\<rparr> 2 3
        \<lparr>b_title = Some ''stolen'', b_description = None, b_status = None,
         b_priority = None, b_dueDate = None, b_user = None\<rparr>
        [\<lparr>task_id = 2, title = ''W'', description = None, status = ''todo'',
          priority = ''low'', dueDate = None, user = 2, createdAt = 8, updatedAt = 8\<rparr>,
         \<lparr>task_id = 3, title = ''X'', description = None, status = ''todo'',
          priority = ''medium'', dueDate = None, user = 1, createdAt = 9, updatedAt = 9\<rparr>]) ! 1
     = \<lparr>task_id = 3, title = ''X'', description = None, status = ''todo'',
          priority = ''medium'', dueDate = None, user = 1, createdAt = 9, updatedAt = 9\<rparr>"
proof -
  let ?s = "[\<lparr>task_id = 2, title = ''W'', description = None, status = ''todo'',
         priority = ''low'', dueDate = None, user = 2, createdAt = 8, updatedAt = 8\<rparr>]"
  let ?t = "\<lparr>task_id = 3, title = ''X'', description = None, status = ''todo'',
          priority = ''medium'', dueDate = None, user = 1, createdAt = 9, updatedAt = 9\<rparr>"
  let ?b = "\<lparr>b_title = Some ''X'', b_description = None, b_status = None,
        b_priority = None, b_dueDate = None, b_user = None\<rparr>"
  let ?b2 = "\<lparr>b_title = Some ''stolen'', b_description = None, b_status = None,
         b_priority = None, b_dueDate = None, b_user = None\<rparr>"
  have h1: "createTask \<lparr>now = 9, oid = 3, reachable = True\<rparr> 1 ?b ?s = ((201, Doc ?t), ?s @ [?t])"
    by (simp add: createTask_def new_Task_def cast_def
      trim_def is_space_def doc_errors_def path_errors_def on_present_def title_errors_def
      status_default_def priority_default_def)
  have h2: "(2::nat) \<noteq> 1" by simp
  have h3: "reachable \<lparr>now = 10, oid = 4, reachable = True\<rparr>" by simp
  have l1: "listed (getTasks \<lparr>now = 10, oid = 4, reachable = True\<rparr> 1 (?s @ [?t])) = [?t]"
    by (simp add: listed_def getTasks_def newest_first_def)
  have l2: "listed (getTasks \<lparr>now = 10, oid = 4, reachable = True\<rparr> 2 (?s @ [?t])) = ?s"
    by (simp add: listed_def getTasks_def newest_first_def)
  from created_task_owner_only [OF h1 h2 h3, of 2 "?s @ [?t]"
      "\<lparr>now = 11, oid = 5, reachable = True\<rparr>" ?b2 3]
  have "\<forall>i<length (?s @ [?t]). user ((?s @ [?t]) ! i) \<noteq> 2 \<longrightarrow>
      snd (updateTask \<lparr>now = 11, oid = 5, reachable = True\<rparr> 2 3 ?b2 (?s @ [?t])) ! i
        = (?s @ [?t]) ! i"
    by blast
  then have "snd (updateTask \<lparr>now = 11, oid = 5, reachable = True\<rparr> 2 3 ?b2 (?s @ [?t])) ! 1
        = (?s @ [?t]) ! 1"
    by simp
  then show ?thesis using h1 h3 l1 l2 by simp
qed

text \<open>
  C3 (amended). If the caller owns no task with the given identifier and the store
  answers, \<open>deleteTask\<close> responds 404, and \<open>updateTask\<close> responds 404 when the body passes the
  cast and the update validators and 400 with the failing paths when it does not; the
  collection is unchanged in each case.
\<close>

theorem unowned_update_delete:
  assumes "\<not> owns uid tid store" and "reachable e"
  shows "deleteTask e uid tid store = ((404, Message ''Task not found''), store) \<and>
         updateTask e uid tid b store =
           ((if path_errors (cast b) = [] then (404, Message ''Task not found'')
             else (400, Error ''Error updating task'' (ValidationError (path_errors (cast b))))),
            store)"
  using assms deleteTask_missing [of uid tid store e]
  by (simp add: updateTask_cases)

text \<open>
  The claim as stated promises 404 for every body. User 1 updating the task of user 2
  with a status outside the enumeration is answered 400: the validators run before the
  query.
\<close>

theorem unowned_update_invalid_counterexample:
  "\<not> owns 1 7
       [\<lparr>task_id = 7, title = ''a'', description = None, status = ''todo'',
         priority = ''medium'', dueDate = None, user = 2, createdAt = 5, updatedAt = 5\<rparr>] \<and>
   updateTask \<lparr>now = 9, oid = 0, reachable = True\<rparr> 1 7
       \<lparr>b_title = None, b_description = None, b_status = Some ''done'',
        b_priority = None, b_dueDate = None, b_user = None\<rparr>
       [\<lparr>task_id = 7, title = ''a'', description = None, status = ''todo'',
         priority = ''medium'', dueDate = None, user = 2, createdAt = 5, updatedAt = 5\<rparr>]
     = ((400, Error ''Error updating task'' (ValidationError [''status''])),
        [\<lparr>task_id = 7, title = ''a'', description = None, status = ''todo'',
          priority = ''medium'', dueDate = None, user = 2, createdAt = 5, updatedAt = 5\<rparr>])"
  by (simp add: owns_def updateTask_def cast_def path_errors_def on_present_def
      status_errors_def status_enum_def)

text \<open>
  An instance with a valid body.
\<close>

theorem unowned_update_delete_witness:
  "\<not> owns 1 7
       [\<lparr>task_id = 7, title = ''a'', description = None, status = ''todo'',
         priority = ''medium'', dueDate = None, user = 2, createdAt = 5, updatedAt = 5\<rparr>] \<and>
   reachable \<lparr>now = 9, oid = 0, reachable = True\<rparr> \<and>
   deleteTask \<lparr>now = 9, oid = 0, reachable = True\<rparr> 1 7
       [\<lparr>task_id = 7, title = ''a'', description = None, status = ''todo'',
         priority = ''medium'', dueDate = None, user = 2, createdAt = 5, updatedAt = 5\<rparr>]
     = ((404, Message ''Task not found''),
        [\<lparr>task_id = 7, title = ''a'', description = None, status = ''todo'',
          priority = ''medium'', dueDate = None, user = 2, createdAt = 5, updatedAt = 5\<rparr>]) \<and>
   updateTask \<lparr>now = 9, oid = 0, reachable = True\<rparr> 1 7
       \<lparr>b_title = None, b_description = None, b_status = Some ''completed'',
        b_priority = None, b_dueDate = None, b_user = None\<rparr>
       [\<lparr>task_id = 7, title = ''a'', description = None, status = ''todo'',
         priority = ''medium'', dueDate = None, user = 2, createdAt = 5, updatedAt = 5\<rparr>]
     = ((404, Message ''Task not found''),
        [\<lparr>task_id = 7, title = ''a'', description = None, status = ''todo'',
          priority = ''medium'', dueDate = None, user = 2, createdAt = 5, updatedAt = 5\<rparr>])"
proof -
  have h1: "\<not> owns 1 7
       [\<lparr>task_id = 7, title = ''a'', description = None, status = ''todo'',
         priority = ''medium'', dueDate = None, user = 2, createdAt = 5, updatedAt = 5\<rparr>]"
    by (simp add: owns_def)
  have h2: "reachable \<lparr>now = 9, oid = 0, reachable = True\<rparr>" by simp
  have h3: "path_errors (cast \<lparr>b_title = None, b_description = None,
        b_status = Some ''completed'', b_priority = None, b_dueDate = None, b_user = None\<rparr>) = []"
    by (simp add: cast_def path_errors_def on_present_def status_errors_def status_enum_def)
  from unowned_update_delete [OF h1 h2, of "\<lparr>b_title = None, b_description = None,
        b_status = Some ''completed'', b_priority = None, b_dueDate = None, b_user = None\<rparr>"]
  show ?thesis using h1 h2 h3 by simp
qed

section \<open>Creation\<close>

text \<open>
  C4 (amended). After a successful create with title \<open>x\<close> and no status, the list served
  to the creator holds the new task; its title is \<open>x\<close> without leading and trailing white
  space, and its status is \<open>todo\<close>.
\<close>

theorem create_then_list:
  assumes "createTask e uid b store = ((201, Doc t), store')"
    and "b_title b = Some x" and "b_status b = None" and "reachable e'"
  shows "t \<in> set (listed (getTasks e' uid store')) \<and> title t = trim x \<and> status t = ''todo''"
proof -
  from createTask_success [OF assms(1)] assms(2)
  have t: "store' = store @ [t]" "t = new_Task e uid (trim x) (cast b)"
    by auto
  have "user t = uid" "title t = trim x"
    using t(2) by (simp_all add: new_Task_def)
  moreover have "status t = ''todo''"
    using t(2) assms(3) by (simp add: new_Task_def cast_def status_default_def)
  ultimately show ?thesis
    using t(1) assms(4) by (simp add: listed_getTasks)
qed

text \<open>
  The claim as stated promises the title as sent. A title sent with a leading space is
  stored without it, and no listed task has the title that was sent.
\<close>

theorem create_then_list_counterexample:
  "createTask \<lparr>now = 9, oid = 3, reachable = True\<rparr> 1
       \<lparr>b_title = Some '' a'', b_description = None, b_status = None,
        b_priority = None, b_dueDate = None, b_user = None\<rparr> []
     = ((201, Doc \<lparr>task_id = 3, title = ''a'', description = None, status = ''todo'',
                   priority = ''medium'', dueDate = None, user = 1, createdAt = 9, updatedAt = 9\<rparr>),
        [\<lparr>task_id = 3, title = ''a'', description = None, status = ''todo'',
          priority = ''medium'', dueDate = None, user = 1, createdAt = 9, updatedAt = 9\<rparr>]) \<and>
   getTasks \<lparr>now = 10, oid = 4, reachable = True\<rparr> 1
       [\<lparr>task_id = 3, title = ''a'', description = None, status = ''todo'',
         priority = ''medium'', dueDate = None, user = 1, createdAt = 9, updatedAt = 9\<rparr>]
     = (200, Tasks [\<lparr>task_id = 3, title = ''a'', description = None, status = ''todo'',
         priority = ''medium'', dueDate = None, user = 1, createdAt = 9, updatedAt = 9\<rparr>]) \<and>
   \<not> list_ex (\<lambda>t. title t = '' a'')
       (listed (getTasks \<lparr>now = 10, oid = 4, reachable = True\<rparr> 1
          (snd (createTask \<lparr>now = 9, oid = 3, reachable = True\<rparr> 1
             \<lparr>b_title = Some '' a'', b_description = None, b_status = None,
              b_priority = None, b_dueDate = None, b_user = None\<rparr> []))))"
  by (simp add: createTask_def getTasks_def listed_def newest_first_def new_Task_def cast_def
      trim_def is_space_def doc_errors_def path_errors_def on_present_def title_errors_def
      status_default_def priority_default_def)

text \<open>
  An instance with the title \<open>X\<close>, which trimming leaves as it is.
\<close>

theorem create_then_list_witness:
  "createTask \<lparr>now = 9, oid = 3, reachable = True\<rparr> 1
       \<lparr>b_title = Some ''X'', b_description = None, b_status = None,
        b_priority = None, b_dueDate = None, b_user = None\<rparr> []
     = ((201, Doc \<lparr>task_id = 3, title = ''X'', description = None, status = ''todo'',
                   priority = ''medium'', dueDate = None, user = 1, createdAt = 9, updatedAt = 9\<rparr>),
        [\<lparr>task_id = 3, title = ''X'', description = None, status = ''todo'',
          priority = ''medium'', dueDate = None, user = 1, createdAt = 9, updatedAt = 9\<rparr>]) \<and>
   \<lparr>task_id = 3, title = ''X'', description = None, status = ''todo'',
     priority = ''medium'', dueDate = None, user = 1, createdAt = 9, updatedAt = 9\<rparr>
     \<in> set (listed (getTasks \<lparr>now = 10, oid = 4, reachable = True\<rparr> 1
         [\<lparr>task_id = 3, title = ''X'', description = None, status = ''todo'',
           priority = ''medium'', dueDate = None, user = 1, createdAt = 9, updatedAt = 9\<rparr>])) \<and>
   trim ''X'' = ''X''"
proof -
  have h1: "createTask \<lparr>now = 9, oid = 3, reachable = True\<rparr> 1
       \<lparr>b_title = Some ''X'', b_description = None, b_status = None,
        b_priority = None, b_dueDate = None, b_user = None\<rparr> []
     = ((201, Doc \<lparr>task_id = 3, title = ''X'', description = None, status = ''todo'',
                   priority = ''medium'', dueDate = None, user = 1, createdAt = 9, updatedAt = 9\<rparr>),
        [\<lparr>task_id = 3, title = ''X'', description = None, status = ''todo'',
          priority = ''medium'', dueDate = None, user = 1, createdAt = 9, updatedAt = 9\<rparr>])"
    by (simp add: createTask_def new_Task_def cast_def
      trim_def is_space_def doc_errors_def path_errors_def on_present_def title_errors_def
      status_default_def priority_default_def)
  have h2: "trim ''X'' = ''X''" by (simp add: trim_def is_space_def)
  from create_then_list [OF h1, of "''X''" "\<lparr>now = 10, oid = 4, reachable = True\<rparr>"]
  show ?thesis using h1 h2 by simp
qed

text \<open>
  C5 (amended). When the store answers, \<open>createTask\<close> responds 400 with a validation
  error and leaves the collection unchanged exactly when the title is missing, or is empty
  or longer than 100 after trimming, or the description is longer than 500 after trimming,
  or a status outside todo/in-progress/completed is sent, or a priority outside
  low/medium/high is sent, or a due date is sent that does not cast to a date; otherwise
  it responds 201 with the new task and appends that task to the collection. The new task
  has the generated identifier, the trimmed title and description, the status and
  priority sent or else \<open>todo\<close> and \<open>medium\<close>, the due date sent, the caller as owner, and
  both timestamps at the current time.
\<close>

theorem createTask_validation:
  assumes "reachable e"
  shows "if (case b_title b of None \<Rightarrow> True | Some s \<Rightarrow> trim s = [] \<or> 100 < length (trim s))
            \<or> (case b_description b of None \<Rightarrow> False | Some s \<Rightarrow> 500 < length (trim s))
            \<or> (case b_status b of None \<Rightarrow> False
                | Some s \<Rightarrow> s \<notin> {''todo'', ''in-progress'', ''completed''})
            \<or> (case b_priority b of None \<Rightarrow> False
                | Some s \<Rightarrow> s \<notin> {''low'', ''medium'', ''high''})
            \<or> (case b_dueDate b of None \<Rightarrow> False
                | Some n \<Rightarrow> n < - 8640000000000000 \<or> 8640000000000000 < n)
         then \<exists>paths. paths \<noteq> [] \<and> createTask e uid b store =
                ((400, Error ''Error creating task'' (ValidationError paths)), store)
         else \<exists>t. createTask e uid b store = ((201, Doc t), store @ [t]) \<and>
                task_id t = oid e \<and>
                map_option trim (b_title b) = Some (title t) \<and>
                description t = map_option trim (b_description b) \<and>
                status t = (case b_status b of None \<Rightarrow> ''todo'' | Some s \<Rightarrow> s) \<and>
                priority t = (case b_priority b of None \<Rightarrow> ''medium'' | Some p \<Rightarrow> p) \<and>
                dueDate t = b_dueDate b \<and>
                user t = uid \<and> createdAt t = now e \<and> updatedAt t = now e"
proof -
  let ?bad = "(case b_title b of None \<Rightarrow> True | Some s \<Rightarrow> trim s = [] \<or> 100 < length (trim s))
            \<or> (case b_description b of None \<Rightarrow> False | Some s \<Rightarrow> 500 < length (trim s))
            \<or> (case b_status b of None \<Rightarrow> False
                | Some s \<Rightarrow> s \<notin> {''todo'', ''in-progress'', ''completed''})
            \<or> (case b_priority b of None \<Rightarrow> False
                | Some s \<Rightarrow> s \<notin> {''low'', ''medium'', ''high''})
            \<or> (case b_dueDate b of None \<Rightarrow> False
                | Some n \<Rightarrow> n < - 8640000000000000 \<or> 8640000000000000 < n)"
  have bad: "doc_errors (cast b) \<noteq> [] \<longleftrightarrow> ?bad"
    by (simp add: doc_errors_def path_errors_def on_present_def cast_def title_errors_def
        description_errors_def status_errors_def priority_errors_def dueDate_errors_def
        status_enum_def priority_enum_def not_le split: option.splits)
  show ?thesis
  proof (cases ?bad)
    case True
    with bad have "doc_errors (cast b) \<noteq> []" by blast
    then have "createTask e uid b store =
        ((400, Error ''Error creating task'' (ValidationError (doc_errors (cast b)))), store)"
      by (simp add: createTask_cases)
    with \<open>doc_errors (cast b) \<noteq> []\<close> True show ?thesis by auto
  next
    case False
    with bad have ok: "doc_errors (cast b) = []" by blast
    then obtain x where x: "b_title b = Some x"
      by (cases "b_title b") (simp_all add: doc_errors_def cast_def)
    let ?t = "new_Task e uid (trim x) (cast b)"
    have c: "createTask e uid b store = ((201, Doc ?t), store @ [?t])"
      using ok assms x by (simp add: createTask_cases cast_def)
    have f: "task_id ?t = oid e \<and>
        map_option trim (b_title b) = Some (title ?t) \<and>
        description ?t = map_option trim (b_description b) \<and>
        status ?t = (case b_status b of None \<Rightarrow> ''todo'' | Some s \<Rightarrow> s) \<and>
        priority ?t = (case b_priority b of None \<Rightarrow> ''medium'' | Some p \<Rightarrow> p) \<and>
        dueDate ?t = b_dueDate b \<and>
        user ?t = uid \<and> createdAt ?t = now e \<and> updatedAt ?t = now e"
      using x by (simp add: new_Task_def cast_def status_default_def priority_default_def
          split: option.splits)
    from c f have "\<exists>t. createTask e uid b store = ((201, Doc t), store @ [t]) \<and>
        task_id t = oid e \<and>
        map_option trim (b_title b) = Some (title t) \<and>
        description t = map_option trim (b_description b) \<and>
        status t = (case b_status b of None \<Rightarrow> ''todo'' | Some s \<Rightarrow> s) \<and>
        priority t = (case b_priority b of None \<Rightarrow> ''medium'' | Some p \<Rightarrow> p) \<and>
        dueDate t = b_dueDate b \<and>
        user t = uid \<and> createdAt t = now e \<and> updatedAt t = now e"
      by blast
    with False show ?thesis by simp
  qed
qed

text \<open>
  The claim as stated names only the title and description constraints. A body with a
  good title, no description and the status \<open>done\<close> is rejected.
\<close>

theorem createTask_validation_counterexample:
  "createTask \<lparr>now = 9, oid = 3, reachable = True\<rparr> 1
       \<lparr>b_title = Some ''X'', b_description = None, b_status = Some ''done'',
        b_priority = None, b_dueDate = None, b_user = None\<rparr> []
     = ((400, Error ''Error creating task'' (ValidationError [''status''])), [])"
  by (simp add: createTask_def cast_def trim_def is_space_def doc_errors_def path_errors_def
      on_present_def title_errors_def status_errors_def status_enum_def)

text \<open>
  Three instances: a body that is accepted, the same body without a title, and the same
  body with a due date one millisecond past the last date.
\<close>

theorem createTask_validation_witness:
  "reachable \<lparr>now = 9, oid = 3, reachable = True\<rparr> \<and>
   (\<exists>t. createTask \<lparr>now = 9, oid = 3, reachable = True\<rparr> 1
       \<lparr>b_title = Some ''X '', b_description = Some ''y'', b_status = None,
        b_priority = Some ''high'', b_dueDate = Some 1000, b_user = None\<rparr> []
     = ((201, Doc t), [] @ [t]) \<and>
     task_id t = 3 \<and> title t = ''X'' \<and> description t = Some ''y'' \<and> status t = ''todo'' \<and>
     priority t = ''high'' \<and> dueDate t = Some 1000 \<and> user t = 1 \<and>
     createdAt t = 9 \<and> updatedAt t = 9) \<and>
   (\<exists>paths. paths \<noteq> [] \<and> createTask \<lparr>now = 9, oid = 3, reachable = True\<rparr> 1
       \<lparr>b_title = None, b_description = Some ''y'', b_status = None,
        b_priority = Some ''high'', b_dueDate = Some 1000, b_user = None\<rparr> []
     = ((400, Error ''Error creating task'' (ValidationError paths)), [])) \<and>
   (\<exists>paths. paths \<noteq> [] \<and> createTask \<lparr>now = 9, oid = 3, reachable = True\<rparr> 1
       \<lparr>b_title = Some ''X '', b_description = Some ''y'', b_status = None,
        b_priority = Some ''high'', b_dueDate = Some 8640000000000001, b_user = None\<rparr> []
     = ((400, Error ''Error creating task'' (ValidationError paths)), []))"
proof -
  have tx: "trim ''X '' = ''X''" and ty: "trim ''y'' = ''y''"
    by (simp_all add: trim_def is_space_def)
  have 1: "\<exists>t. createTask \<lparr>now = 9, oid = 3, reachable = True\<rparr> 1
       \<lparr>b_title = Some ''X '', b_description = Some ''y'', b_status = None,
        b_priority = Some ''high'', b_dueDate = Some 1000, b_user = None\<rparr> []
     = ((201, Doc t), [] @ [t]) \<and>
     task_id t = 3 \<and> title t = ''X'' \<and> description t = Some ''y'' \<and> status t = ''todo'' \<and>
     priority t = ''high'' \<and> dueDate t = Some 1000 \<and> user t = 1 \<and>
     createdAt t = 9 \<and> updatedAt t = 9"
    using createTask_validation [of "\<lparr>now = 9, oid = 3, reachable = True\<rparr>"
      "\<lparr>b_title = Some ''X '', b_description = Some ''y'', b_status = None,
        b_priority = Some ''high'', b_dueDate = Some 1000, b_user = None\<rparr>" 1 "[]"]
    by (auto simp: tx ty)
  have 2: "\<exists>paths. paths \<noteq> [] \<and> createTask \<lparr>now = 9, oid = 3, reachable = True\<rparr> 1
       \<lparr>b_title = None, b_description = Some ''y'', b_status = None,
        b_priority = Some ''high'', b_dueDate = Some 1000, b_user = None\<rparr> []
     = ((400, Error ''Error creating task'' (ValidationError paths)), [])"
    using createTask_validation [of "\<lparr>now = 9, oid = 3, reachable = True\<rparr>"
      "\<lparr>b_title = None, b_description = Some ''y'', b_status = None,
        b_priority = Some ''high'', b_dueDate = Some 1000, b_user = None\<rparr>" 1 "[]"]
    by simp
  have 3: "\<exists>paths. paths \<noteq> [] \<and> createTask \<lparr>now = 9, oid = 3, reachable = True\<rparr> 1
       \<lparr>b_title = Some ''X '', b_description = Some ''y'', b_status = None,
        b_priority = Some ''high'', b_dueDate = Some 8640000000000001, b_user = None\<rparr> []
     = ((400, Error ''Error creating task'' (ValidationError paths)), [])"
    using createTask_validation [of "\<lparr>now = 9, oid = 3, reachable = True\<rparr>"
      "\<lparr>b_title = Some ''X '', b_description = Some ''y'', b_status = None,
        b_priority = Some ''high'', b_dueDate = Some 8640000000000001, b_user = None\<rparr>" 1 "[]"]
    by simp
  from 1 2 3 show ?thesis by simp
qed

text \<open>
  C6. A successful create stores the task it returns; when the body has no status the
  task's status is \<open>todo\<close>, when it has no priority the task's priority is \<open>medium\<close>. In
  every collection reached from the empty one by create, update and delete requests,
  every task has a status among todo/in-progress/completed and a priority among
  low/medium/high.
\<close>

theorem defaults_and_enums:
  "(\<forall>t\<in>set (run rs). status t \<in> {''todo'', ''in-progress'', ''completed''}
        \<and> priority t \<in> {''low'', ''medium'', ''high''}) \<and>
   (createTask e uid b store = ((201, Doc t'), store') \<longrightarrow>
      t' \<in> set store' \<and>
      (b_status b = None \<longrightarrow> status t' = ''todo'') \<and>
      (b_priority b = None \<longrightarrow> priority t' = ''medium''))"
proof -
  have 1: "\<forall>t\<in>set (run rs). status t \<in> {''todo'', ''in-progress'', ''completed''}
        \<and> priority t \<in> {''low'', ''medium'', ''high''}"
    using enums_ok_run [of rs]
    by (simp add: enums_ok_def list_all_iff status_enum_def priority_enum_def)
  have 2: "t' \<in> set store' \<and>
      (b_status b = None \<longrightarrow> status t' = ''todo'') \<and>
      (b_priority b = None \<longrightarrow> priority t' = ''medium'')"
    if "createTask e uid b store = ((201, Doc t'), store')"
    using createTask_success [OF that]
    by (auto simp: new_Task_def cast_def status_default_def priority_default_def)
  from 1 2 show ?thesis by blast
qed

text \<open>
  An instance: a create without status and priority, followed by an update of the status.
\<close>

theorem defaults_and_enums_witness:
  "run [Create \<lparr>now = 9, oid = 3, reachable = True\<rparr> 1
          \<lparr>b_title = Some ''X'', b_description = None, b_status = None,
           b_priority = None, b_dueDate = None, b_user = None\<rparr>,
        Update \<lparr>now = 12, oid = 4, reachable = True\<rparr> 1 3
          \<lparr>b_title = None, b_description = None, b_status = Some ''completed'',
           b_priority = None, b_dueDate = None, b_user = None\<rparr>]
     = [\<lparr>task_id = 3, title = ''X'', description = None, status = ''completed'',
         priority = ''medium'', dueDate = None, user = 1, createdAt = 9, updatedAt = 12\<rparr>] \<and>
   ''completed'' \<in> {''todo'', ''in-progress'', ''completed''} \<and>
   ''medium'' \<in> {''low'', ''medium'', ''high''} \<and>
   createTask \<lparr>now = 9, oid = 3, reachable = True\<rparr> 1
       \<lparr>b_title = Some ''X'', b_description = None, b_status = None,
        b_priority = None, b_dueDate = None, b_user = None\<rparr> []
     = ((201, Doc \<lparr>task_id = 3, title = ''X'', description = None, status = ''todo'',
                   priority = ''medium'', dueDate = None, user = 1, createdAt = 9, updatedAt = 9\<rparr>),
        [\<lparr>task_id = 3, title = ''X'', description = None, status = ''todo'',
          priority = ''medium'', dueDate = None, user = 1, createdAt = 9, updatedAt = 9\<rparr>])"
proof -
  have c: "createTask \<lparr>now = 9, oid = 3, reachable = True\<rparr> 1
       \<lparr>b_title = Some ''X'', b_description = None, b_status = None,
        b_priority = None, b_dueDate = None, b_user = None\<rparr> []
     = ((201, Doc \<lparr>task_id = 3, title = ''X'', description = None, status = ''todo'',
                   priority = ''medium'', dueDate = None, user = 1, createdAt = 9, updatedAt = 9\<rparr>),
        [\<lparr>task_id = 3, title = ''X'', description = None, status = ''todo'',
          priority = ''medium'', dueDate = None, user = 1, createdAt = 9, updatedAt = 9\<rparr>])"
    by (simp add: createTask_def new_Task_def cast_def
      trim_def is_space_def doc_errors_def path_errors_def on_present_def title_errors_def
      status_default_def priority_default_def)
  have r: "run [Create \<lparr>now = 9, oid = 3, reachable = True\<rparr> 1
          \<lparr>b_title = Some ''X'', b_description = None, b_status = None,
           b_priority = None, b_dueDate = None, b_user = None\<rparr>,
        Update \<lparr>now = 12, oid = 4, reachable = True\<rparr> 1 3
          \<lparr>b_title = None, b_description = None, b_status = Some ''completed'',
           b_priority = None, b_dueDate = None, b_user = None\<rparr>]
     = [\<lparr>task_id = 3, title = ''X'', description = None, status = ''completed'',
         priority = ''medium'', dueDate = None, user = 1, createdAt = 9, updatedAt = 12\<rparr>]"
    by (simp add: run_def createTask_def new_Task_def trim_def is_space_def doc_errors_def
        title_errors_def status_default_def priority_default_def
        updateTask_def cast_def path_errors_def on_present_def
        status_errors_def status_enum_def apply_update_def)
  from defaults_and_enums [of
      "[Create \<lparr>now = 9, oid = 3, reachable = True\<rparr> 1
          \<lparr>b_title = Some ''X'', b_description = None, b_status = None,
           b_priority = None, b_dueDate = None, b_user = None\<rparr>,
        Update \<lparr>now = 12, oid = 4, reachable = True\<rparr> 1 3
          \<lparr>b_title = None, b_description = None, b_status = Some ''completed'',
           b_priority = None, b_dueDate = None, b_user = None\<rparr>]"
      "\<lparr>now = 9, oid = 3, reachable = True\<rparr>" 1
      "\<lparr>b_title = Some ''X'', b_description = None, b_status = None,
        b_priority = None, b_dueDate = None, b_user = None\<rparr>" "[]"
      "\<lparr>task_id = 3, title = ''X'', description = None, status = ''todo'',
                   priority = ''medium'', dueDate = None, user = 1, createdAt = 9, updatedAt = 9\<rparr>"
      "[\<lparr>task_id = 3, title = ''X'', description = None, status = ''todo'',
          priority = ''medium'', dueDate = None, user = 1, createdAt = 9, updatedAt = 9\<rparr>]"]
  show ?thesis using c r by simp
qed

section \<open>Status codes\<close>

text \<open>
  C7 (amended). The status of every response of the task handlers: \<open>getTasks\<close> answers
  200, or 500 when the store call throws; \<open>createTask\<close> answers 201, or 400 when anything
  throws (validation or store); \<open>updateTask\<close> answers 400 when anything throws, else 200 or,
  when the caller owns no such task, 404; \<open>deleteTask\<close> answers 500 when the store call
  throws, else 200 or 404. Every response with a status from 400 up carries a message.
\<close>

theorem task_error_statuses:
  "fst (getTasks e uid store) = (if reachable e then 200 else 500) \<and>
   fst (fst (createTask e uid b store)) =
     (if doc_errors (cast b) = [] \<and> reachable e then 201 else 400) \<and>
   fst (fst (updateTask e uid tid b store)) =
     (if path_errors (cast b) = [] \<and> reachable e
      then (if owns uid tid store then 200 else 404) else 400) \<and>
   fst (fst (deleteTask e uid tid store)) =
     (if reachable e then (if owns uid tid store then 200 else 404) else 500) \<and>
   (400 \<le> fst (getTasks e uid store) \<longrightarrow> has_message (snd (getTasks e uid store))) \<and>
   (400 \<le> fst (fst (createTask e uid b store)) \<longrightarrow>
      has_message (snd (fst (createTask e uid b store)))) \<and>
   (400 \<le> fst (fst (updateTask e uid tid b store)) \<longrightarrow>
      has_message (snd (fst (updateTask e uid tid b store)))) \<and>
   (400 \<le> fst (fst (deleteTask e uid tid store)) \<longrightarrow>
      has_message (snd (fst (deleteTask e uid tid store))))"
proof -
  have g: "fst (getTasks e uid store) = (if reachable e then 200 else 500)"
    by (simp add: getTasks_cases)
  have c: "fst (fst (createTask e uid b store)) =
     (if doc_errors (cast b) = [] \<and> reachable e then 201 else 400)"
    by (simp add: createTask_cases)
  have u: "fst (fst (updateTask e uid tid b store)) =
     (if path_errors (cast b) = [] \<and> reachable e
      then (if owns uid tid store then 200 else 404) else 400)"
    by (simp add: updateTask_cases)
  have d: "fst (fst (deleteTask e uid tid store)) =
     (if reachable e then (if owns uid tid store then 200 else 404) else 500)"
    by (simp add: deleteTask_status)
  have gm: "400 \<le> fst (getTasks e uid store) \<longrightarrow> has_message (snd (getTasks e uid store))"
    by (simp add: getTasks_cases has_message_def)
  have cm: "400 \<le> fst (fst (createTask e uid b store)) \<longrightarrow>
      has_message (snd (fst (createTask e uid b store)))"
    by (simp add: createTask_cases has_message_def)
  have um: "400 \<le> fst (fst (updateTask e uid tid b store)) \<longrightarrow>
      has_message (snd (fst (updateTask e uid tid b store)))"
    by (simp add: updateTask_cases has_message_def)
  have dm: "400 \<le> fst (fst (deleteTask e uid tid store)) \<longrightarrow>
      has_message (snd (fst (deleteTask e uid tid store)))"
    using deleteTask_body by blast
  from g c u d gm cm um dm show ?thesis by blast
qed

text \<open>
  The claim as stated promises 500 for a failure that is not a validation failure. A valid
  create whose store call is rejected is answered 400.
\<close>

theorem task_error_statuses_counterexample:
  "\<not> reachable \<lparr>now = 9, oid = 3, reachable = False\<rparr> \<and>
   createTask \<lparr>now = 9, oid = 3, reachable = False\<rparr> 1
       \<lparr>b_title = Some ''X'', b_description = None, b_status = None,
        b_priority = None, b_dueDate = None, b_user = None\<rparr> []
     = ((400, Error ''Error creating task'' StoreError), [])"
  by (simp add: createTask_def cast_def trim_def is_space_def doc_errors_def path_errors_def
      on_present_def title_errors_def)

text \<open>
  An instance: all four handlers with the store out of reach.
\<close>

theorem task_error_statuses_witness:
  "fst (getTasks \<lparr>now = 9, oid = 3, reachable = False\<rparr> 1 []) = 500 \<and>
   has_message (snd (getTasks \<lparr>now = 9, oid = 3, reachable = False\<rparr> 1 [])) \<and>
   fst (fst (createTask \<lparr>now = 9, oid = 3, reachable = False\<rparr> 1
       \<lparr>b_title = Some ''X'', b_description = None, b_status = None,
        b_priority = None, b_dueDate = None, b_user = None\<rparr> [])) = 400 \<and>
   has_message (snd (fst (createTask \<lparr>now = 9, oid = 3, reachable = False\<rparr> 1
       \<lparr>b_title = Some ''X'', b_description = None, b_status = None,
        b_priority = None, b_dueDate = None, b_user = None\<rparr> []))) \<and>
   fst (fst (updateTask \<lparr>now = 9, oid = 3, reachable = False\<rparr> 1 7
       \<lparr>b_title = Some ''X'', b_description = None, b_status = None,
        b_priority = None, b_dueDate = None, b_user = None\<rparr> [])) = 400 \<and>
   has_message (snd (fst (updateTask \<lparr>now = 9, oid = 3, reachable = False\<rparr> 1 7
       \<lparr>b_title = Some ''X'', b_description = None, b_status = None,
        b_priority = None, b_dueDate = None, b_user = None\<rparr> []))) \<and>
   fst (fst (deleteTask \<lparr>now = 9, oid = 3, reachable = False\<rparr> 1 7 [])) = 500 \<and>
   has_message (snd (fst (deleteTask \<lparr>now = 9, oid = 3, reachable = False\<rparr> 1 7 [])))"
  using task_error_statuses [of "\<lparr>now = 9, oid = 3, reachable = False\<rparr>" 1 "[]"
       "\<lparr>b_title = Some ''X'', b_description = None, b_status = None,
        b_priority = None, b_dueDate = None, b_user = None\<rparr>" 7]
  by simp

section \<open>Update\<close>

text \<open>
  C8 (amended). If the caller owns a task with the given identifier, the store answers
  and the body passes the cast and the update validators, \<open>updateTask\<close> responds 200 with the changed
  task and replaces that one task in the collection, every other task staying in its
  place unchanged. In the changed task each path sent in the body has the value sent
  (title and description trimmed), \<open>updatedAt\<close> is the time of the update, and every
  other path, the identifier and \<open>createdAt\<close> among them, is as before.
\<close>

theorem updateTask_partial:
  assumes "owns uid tid store" and "reachable e" and "path_errors (cast b) = []"
  shows "\<exists>i t'. i < length store \<and> task_id (store ! i) = tid \<and> user (store ! i) = uid \<and>
           updateTask e uid tid b store = ((200, Doc t'), store[i := t']) \<and>
           title t' = (case b_title b of None \<Rightarrow> title (store ! i) | Some s \<Rightarrow> trim s) \<and>
           description t' =
             (case b_description b of None \<Rightarrow> description (store ! i)
              | Some s \<Rightarrow> Some (trim s)) \<and>
           status t' = (case b_status b of None \<Rightarrow> status (store ! i) | Some s \<Rightarrow> s) \<and>
           priority t' = (case b_priority b of None \<Rightarrow> priority (store ! i) | Some p \<Rightarrow> p) \<and>
           dueDate t' = (case b_dueDate b of None \<Rightarrow> dueDate (store ! i) | Some x \<Rightarrow> Some x) \<and>
           user t' = (case b_user b of None \<Rightarrow> uid | Some u \<Rightarrow> u) \<and>
           task_id t' = tid \<and> createdAt t' = createdAt (store ! i) \<and> updatedAt t' = now e"
proof -
  from updateTask_found [OF assms]
  obtain i where i: "i < length store" "task_id (store ! i) = tid" "user (store ! i) = uid"
    "updateTask e uid tid b store =
       ((200, Doc (apply_update (now e) (cast b) (store ! i))),
        store[i := apply_update (now e) (cast b) (store ! i)])"
    by blast
  let ?t = "apply_update (now e) (cast b) (store ! i)"
  have "title ?t = (case b_title b of None \<Rightarrow> title (store ! i) | Some s \<Rightarrow> trim s)"
    by (simp add: apply_update_def cast_def split: option.splits)
  moreover have "description ?t =
      (case b_description b of None \<Rightarrow> description (store ! i) | Some s \<Rightarrow> Some (trim s))"
    by (simp add: apply_update_def cast_def split: option.splits)
  moreover have "status ?t = (case b_status b of None \<Rightarrow> status (store ! i) | Some s \<Rightarrow> s)"
    by (simp add: apply_update_def cast_def)
  moreover have "priority ?t = (case b_priority b of None \<Rightarrow> priority (store ! i) | Some p \<Rightarrow> p)"
    by (simp add: apply_update_def cast_def)
  moreover have "dueDate ?t = (case b_dueDate b of None \<Rightarrow> dueDate (store ! i) | Some x \<Rightarrow> Some x)"
    by (simp add: apply_update_def cast_def)
  moreover have "user ?t = (case b_user b of None \<Rightarrow> uid | Some u \<Rightarrow> u)"
    using i(3) by (simp add: apply_update_def cast_def split: option.splits)
  moreover have "task_id ?t = tid \<and> createdAt ?t = createdAt (store ! i) \<and> updatedAt ?t = now e"
    using i(2) by (simp add: apply_update_def)
  ultimately show ?thesis using i by blast
qed

text \<open>
  The claim as stated leaves every path not named in the body unchanged. An update that
  names only the status also moves \<open>updatedAt\<close>, here from 9 to 12.
\<close>

theorem updateTask_partial_counterexample:
  "b_status \<lparr>b_title = None, b_description = None, b_status = Some ''completed'',
        b_priority = None, b_dueDate = None, b_user = None\<rparr> = Some ''completed'' \<and>
   updateTask \<lparr>now = 12, oid = 4, reachable = True\<rparr> 1 3
       \<lparr>b_title = None, b_description = None, b_status = Some ''completed'',
        b_priority = None, b_dueDate = None, b_user = None\<rparr>
       [\<lparr>task_id = 3, title = ''X'', description = None, status = ''todo'',
         priority = ''medium'', dueDate = None, user = 1, createdAt = 9, updatedAt = 9\<rparr>]
     = ((200, Doc \<lparr>task_id = 3, title = ''X'', description = None, status = ''completed'',
         priority = ''medium'', dueDate = None, user = 1, createdAt = 9, updatedAt = 12\<rparr>),
        [\<lparr>task_id = 3, title = ''X'', description = None, status = ''completed'',
         priority = ''medium'', dueDate = None, user = 1, createdAt = 9, updatedAt = 12\<rparr>]) \<and>
   updatedAt \<lparr>task_id = 3, title = ''X'', description = None, status = ''completed'',
         priority = ''medium'', dueDate = None, user = 1, createdAt = 9, updatedAt = 12\<rparr>
     \<noteq> updatedAt \<lparr>task_id = 3, title = ''X'', description = None, status = ''todo'',
         priority = ''medium'', dueDate = None, user = 1, createdAt = 9, updatedAt = 9\<rparr>"
  by (simp add: updateTask_def cast_def path_errors_def on_present_def
        status_errors_def status_enum_def apply_update_def)

text \<open>
  An instance: the owner retitles and completes the first of two tasks.
\<close>

theorem updateTask_partial_witness:
  "owns 1 3 [\<lparr>task_id = 3, title = ''X'', description = None, status = ''todo'',
         priority = ''medium'', dueDate = None, user = 1, createdAt = 9, updatedAt = 9\<rparr>,
        \<lparr>task_id = 4, title = ''Y'', description = None, status = ''todo'',
         priority = ''low'', dueDate = None, user = 2, createdAt = 10, updatedAt = 10\<rparr>] \<and>
   reachable \<lparr>now = 12, oid = 4, reachable = True\<rparr> \<and>
   path_errors (cast \<lparr>b_title = Some ''Z '', b_description = None, b_status = Some ''completed'',
        b_priority = None, b_dueDate = None, b_user = None\<rparr>) = [] \<and>
   (\<exists>i t'. i < 2 \<and>
      updateTask \<lparr>now = 12, oid = 4, reachable = True\<rparr> 1 3
         \<lparr>b_title = Some ''Z '', b_description = None, b_status = Some ''completed'',
          b_priority = None, b_dueDate = None, b_user = None\<rparr>
         [\<lparr>task_id = 3, title = ''X'', description = None, status = ''todo'',
           priority = ''medium'', dueDate = None, user = 1, createdAt = 9, updatedAt = 9\<rparr>,
          \<lparr>task_id = 4, title = ''Y'', description = None, status = ''todo'',
           priority = ''low'', dueDate = None, user = 2, createdAt = 10, updatedAt = 10\<rparr>]
       = ((200, Doc t'),
          [\<lparr>task_id = 3, title = ''X'', description = None, status = ''todo'',
            priority = ''medium'', dueDate = None, user = 1, createdAt = 9, updatedAt = 9\<rparr>,
           \<lparr>task_id = 4, title = ''Y'', description = None, status = ''todo'',
            priority = ''low'', dueDate = None, user = 2, createdAt = 10, updatedAt = 10\<rparr>]
          [i := t']) \<and>
      title t' = ''Z'' \<and> status t' = ''completed'' \<and> priority t' = ''medium'' \<and>
      createdAt t' = 9 \<and> updatedAt t' = 12)"
proof -
  let ?s = "[\<lparr>task_id = 3, title = ''X'', description = None, status = ''todo'',
         priority = ''medium'', dueDate = None, user = 1, createdAt = 9, updatedAt = 9\<rparr>,
        \<lparr>task_id = 4, title = ''Y'', description = None, status = ''todo'',
         priority = ''low'', dueDate = None, user = 2, createdAt = 10, updatedAt = 10\<rparr>]"
  let ?b = "\<lparr>b_title = Some ''Z '', b_description = None, b_status = Some ''completed'',
        b_priority = None, b_dueDate = None, b_user = None\<rparr>"
  let ?e = "\<lparr>now = 12, oid = 4, reachable = True\<rparr>"
  have h1: "owns 1 3 ?s" by (simp add: owns_def)
  have h2: "reachable ?e" by simp
  have h3: "path_errors (cast ?b) = []"
    by (simp add: cast_def trim_def is_space_def path_errors_def on_present_def title_errors_def
        status_errors_def status_enum_def)
  have tr: "trim ''Z '' = ''Z''" by (simp add: trim_def is_space_def)
  from updateTask_partial [OF h1 h2 h3]
  obtain i t' where it: "i < length ?s" "task_id (?s ! i) = 3"
    "updateTask ?e 1 3 ?b ?s = ((200, Doc t'), ?s[i := t'])"
    "title t' = (case b_title ?b of None \<Rightarrow> title (?s ! i) | Some s \<Rightarrow> trim s)"
    "status t' = (case b_status ?b of None \<Rightarrow> status (?s ! i) | Some s \<Rightarrow> s)"
    "priority t' = (case b_priority ?b of None \<Rightarrow> priority (?s ! i) | Some p \<Rightarrow> p)"
    "createdAt t' = createdAt (?s ! i)" "updatedAt t' = now ?e"
    by blast
  have i0: "i = 0"
    using it(1,2) by (cases i) simp_all
  have "i < 2 \<and> updateTask ?e 1 3 ?b ?s = ((200, Doc t'), ?s[i := t']) \<and>
      title t' = ''Z'' \<and> status t' = ''completed'' \<and> priority t' = ''medium'' \<and>
      createdAt t' = 9 \<and> updatedAt t' = 12"
    using it i0 tr by simp
  then show ?thesis using h1 h2 h3 by blast
qed

section \<open>Registration\<close>

text \<open>
  C9. If a registration of an email succeeds, a later registration of the same email
  fails, whatever the password, and leaves the credential store as it was: with exactly
  one account for that email.
\<close>

theorem register_twice:
  assumes "register hash sign e1 salt1 em p1 users = (Inr token, users1)"
  shows "register hash' sign' e2 salt2 em p2 users1 = (Inl EmailInUse, users1) \<and>
         length (filter (\<lambda>u. email u = em) users1) = 1"
proof -
  from assms have fresh: "\<not> list_ex (\<lambda>u. email u = em) users"
    by (auto simp: register_def split: if_splits)
  with assms have u1: "users1 = users @ [\<lparr>account_id = oid e1, email = em,
                      password_hash = hash salt1 p1, registered = now e1\<rparr>]"
    by (simp add: register_def)
  have "filter (\<lambda>u. email u = em) users = []"
    using fresh by (simp add: list_ex_iff filter_empty_conv)
  then have "length (filter (\<lambda>u. email u = em) users1) = 1"
    by (simp add: u1)
  moreover have "list_ex (\<lambda>u. email u = em) users1"
    by (simp add: u1)
  then have "register hash' sign' e2 salt2 em p2 users1 = (Inl EmailInUse, users1)"
    by (simp add: register_def)
  ultimately show ?thesis by simp
qed

text \<open>
  An instance on the empty credential store.
\<close>

theorem register_twice_witness:
  "register (\<lambda>s p. s @ p) (\<lambda>i. ''token'') \<lparr>now = 1, oid = 5, reachable = True\<rparr> ''s1''
       ''a@b.c'' ''pw1'' []
     = (Inr ''token'', [\<lparr>account_id = 5, email = ''a@b.c'', password_hash = ''s1pw1'',
                         registered = 1\<rparr>]) \<and>
   register (\<lambda>s p. s @ p) (\<lambda>i. ''token'') \<lparr>now = 2, oid = 6, reachable = True\<rparr> ''s2''
       ''a@b.c'' ''pw2''
       [\<lparr>account_id = 5, email = ''a@b.c'', password_hash = ''s1pw1'', registered = 1\<rparr>]
     = (Inl EmailInUse,
        [\<lparr>account_id = 5, email = ''a@b.c'', password_hash = ''s1pw1'', registered = 1\<rparr>]) \<and>
   length (filter (\<lambda>u. email u = ''a@b.c'')
       [\<lparr>account_id = 5, email = ''a@b.c'', password_hash = ''s1pw1'', registered = 1\<rparr>]) = 1"
proof -
  have h: "register (\<lambda>s p. s @ p) (\<lambda>i. ''token'') \<lparr>now = 1, oid = 5, reachable = True\<rparr> ''s1''
       ''a@b.c'' ''pw1'' []
     = (Inr ''token'', [\<lparr>account_id = 5, email = ''a@b.c'', password_hash = ''s1pw1'',
                         registered = 1\<rparr>])"
    by (simp add: register_def)
  from register_twice [OF h, of "\<lambda>s p. s @ p" "\<lambda>i. ''token''"
      "\<lparr>now = 2, oid = 6, reachable = True\<rparr>" "''s2''" "''pw2''"]
  show ?thesis using h by simp
qed

section \<open>Client list\<close>

text \<open>
  C10. A successful \<open>handleCreateTask\<close> puts the returned task in front of the list and
  keeps the rest; a successful \<open>handleUpdateTask\<close> keeps the length of the list and, at
  every position, puts the returned task where the identifier matches and keeps the task
  elsewhere. The list stays in descending order of creation time: after a create when the
  returned task is at least as new as every listed task, after an update when the
  returned task has the creation time of the tasks it replaces. A failed call leaves the
  list as it is.
\<close>

theorem client_list_updates:
  "handleCreateTask (Some new) tasks = new # tasks \<and>
   length (handleUpdateTask tid (Some upd) tasks) = length tasks \<and>
   (\<forall>i<length tasks. handleUpdateTask tid (Some upd) tasks ! i =
        (if task_id (tasks ! i) = tid then upd else tasks ! i)) \<and>
   (descending tasks \<and> (\<forall>t\<in>set tasks. createdAt t \<le> createdAt new) \<longrightarrow>
      descending (handleCreateTask (Some new) tasks)) \<and>
   (descending tasks \<and> (\<forall>t\<in>set tasks. task_id t = tid \<longrightarrow> createdAt t = createdAt upd) \<longrightarrow>
      descending (handleUpdateTask tid (Some upd) tasks)) \<and>
   handleCreateTask None tasks = tasks \<and> handleUpdateTask tid None tasks = tasks"
proof -
  have 1: "handleCreateTask (Some new) tasks = new # tasks"
    by (simp add: handleCreateTask_def)
  have 2: "length (handleUpdateTask tid (Some upd) tasks) = length tasks"
    by (simp add: handleUpdateTask_def)
  have 3: "\<forall>i<length tasks. handleUpdateTask tid (Some upd) tasks ! i =
        (if task_id (tasks ! i) = tid then upd else tasks ! i)"
    by (simp add: handleUpdateTask_def)
  have 4: "descending tasks \<and> (\<forall>t\<in>set tasks. createdAt t \<le> createdAt new) \<longrightarrow>
      descending (handleCreateTask (Some new) tasks)"
    by (simp add: handleCreateTask_def descending_def)
  have 5: "descending tasks \<and>
      (\<forall>t\<in>set tasks. task_id t = tid \<longrightarrow> createdAt t = createdAt upd) \<longrightarrow>
      descending (handleUpdateTask tid (Some upd) tasks)"
    using descending_replace [of tasks tid upd] by (simp add: handleUpdateTask_def)
  have 6: "handleCreateTask None tasks = tasks \<and> handleUpdateTask tid None tasks = tasks"
    by (simp add: handleCreateTask_def handleUpdateTask_def)
  from 1 2 3 4 5 6 show ?thesis by blast
qed

text \<open>
  An instance: a list of two tasks, a third one created, the older one updated.
\<close>

theorem client_list_updates_witness:
  "descending
     [\<lparr>task_id = 4, title = ''Y'', description = None, status = ''todo'',
       priority = ''low'', dueDate = None, user = 1, createdAt = 10, updatedAt = 10\<rparr>,
      \<lparr>task_id = 3, title = ''X'', description = None, status = ''todo'',
       priority = ''medium'', dueDate = None, user = 1, createdAt = 9, updatedAt = 9\<rparr>] \<and>
   handleCreateTask
     (Some \<lparr>task_id = 5, title = ''Z'', description = None, status = ''todo'',
       priority = ''medium'', dueDate = None, user = 1, createdAt = 11, updatedAt = 11\<rparr>)
     [\<lparr>task_id = 4, title = ''Y'', description = None, status = ''todo'',
       priority = ''low'', dueDate = None, user = 1, createdAt = 10, updatedAt = 10\<rparr>,
      \<lparr>task_id = 3, title = ''X'', description = None, status = ''todo'',
       priority = ''medium'', dueDate = None, user = 1, createdAt = 9, updatedAt = 9\<rparr>]
   = [\<lparr>task_id = 5, title = ''Z'', description = None, status = ''todo'',
       priority = ''medium'', dueDate = None, user = 1, createdAt = 11, updatedAt = 11\<rparr>,
      \<lparr>task_id = 4, title = ''Y'', description = None, status = ''todo'',
       priority = ''low'', dueDate = None, user = 1, createdAt = 10, updatedAt = 10\<rparr>,
      \<lparr>task_id = 3, title = ''X'', description = None, status = ''todo'',
       priority = ''medium'', dueDate = None, user = 1, createdAt = 9, updatedAt = 9\<rparr>] \<and>
   descending (handleCreateTask
     (Some \<lparr>task_id = 5, title = ''Z'', description = None, status = ''todo'',
       priority = ''medium'', dueDate = None, user = 1, createdAt = 11, updatedAt = 11\<rparr>)
     [\<lparr>task_id = 4, title = ''Y'', description = None, status = ''todo'',
       priority = ''low'', dueDate = None, user = 1, createdAt = 10, updatedAt = 10\<rparr>,
      \<lparr>task_id = 3, title = ''X'', description = None, status = ''todo'',
       priority = ''medium'', dueDate = None, user = 1, createdAt = 9, updatedAt = 9\<rparr>]) \<and>
   descending (handleUpdateTask 3
     (Some \<lparr>task_id = 3, title = ''X'', description = None, status = ''completed'',
       priority = ''medium'', dueDate = None, user = 1, createdAt = 9, updatedAt = 12\<rparr>)
     [\<lparr>task_id = 4, title = ''Y'', description = None, status = ''todo'',
       priority = ''low'', dueDate = None, user = 1, createdAt = 10, updatedAt = 10\<rparr>,
      \<lparr>task_id = 3, title = ''X'', description = None, status = ''todo'',
       priority = ''medium'', dueDate = None, user = 1, createdAt = 9, updatedAt = 9\<rparr>]) \<and>
   handleUpdateTask 3
     (Some \<lparr>task_id = 3, title = ''X'', description = None, status = ''completed'',
       priority = ''medium'', dueDate = None, user = 1, createdAt = 9, updatedAt = 12\<rparr>)
     [\<lparr>task_id = 4, title = ''Y'', description = None, status = ''todo'',
       priority = ''low'', dueDate = None, user = 1, createdAt = 10, updatedAt = 10\<rparr>,
      \<lparr>task_id = 3, title = ''X'', description = None, status = ''todo'',
       priority = ''medium'', dueDate = None, user = 1, createdAt = 9, updatedAt = 9\<rparr>] ! 1
   = \<lparr>task_id = 3, title = ''X'', description = None, status = ''completed'',
       priority = ''medium'', dueDate = None, user = 1, createdAt = 9, updatedAt = 12\<rparr>"
  using client_list_updates [of
     "\<lparr>task_id = 5, title = ''Z'', description = None, status = ''todo'',
       priority = ''medium'', dueDate = None, user = 1, createdAt = 11, updatedAt = 11\<rparr>"
     "[\<lparr>task_id = 4, title = ''Y'', description = None, status = ''todo'',
       priority = ''low'', dueDate = None, user = 1, createdAt = 10, updatedAt = 10\<rparr>,
      \<lparr>task_id = 3, title = ''X'', description = None, status = ''todo'',
       priority = ''medium'', dueDate = None, user = 1, createdAt = 9, updatedAt = 9\<rparr>]"
     3
     "\<lparr>task_id = 3, title = ''X'', description = None, status = ''completed'',
       priority = ''medium'', dueDate = None, user = 1, createdAt = 9, updatedAt = 12\<rparr>"]
  by (simp add: descending_def)

end
